theory Spec2Isabelle
  imports Main "HOL-Library.Code_Target_Numeral"
begin

section \<open>Data model\<close>

text \<open>
  The controllers work on four MongoDB collections through Mongoose models. A collection
  is modelled as the list of its documents, a document as a record with the fields the
  controllers read or write. An ObjectId is kept in its canonical string form.
  Timestamps (\<open>createdAt\<close>, \<open>expires\<close>, the current date) are integers.
\<close>

type_synonym oid = string

record user =
  user_id :: oid
  username :: string
  user_email :: string
  fullName :: string
  avatar :: string
  coverImage :: "string option"
  verified :: bool
  watchHistory :: "oid list"
  refreshToken :: "string option"
  user_createdAt :: int

record video =
  video_id :: oid
  owner :: oid
  isPublished :: bool
  title :: string
  thumbnail :: string
  duration :: nat
  views :: nat
  video_createdAt :: int

record subscription =
  subscriber :: oid
  channel :: oid

record otp =
  otp_email :: string
  otp_code :: string
  otp_context :: string
  expires :: int

record db =
  users :: "user list"
  videos :: "video list"
  subscriptions :: "subscription list"
  otps :: "otp list"

text \<open>
  What a handler can throw: an \<open>ApiError\<close> with its status code and message, a
  runtime error of JavaScript itself, or the error of a library, each with its message.
\<close>

datatype error =
    ApiError nat string
  | ReferenceError string
  | TypeError string
  | FsError string
  | JsonWebTokenError string
  | MongoServerError string

text \<open>The documents that the handlers put into a response.\<close>

record owner_projection =
  op_id :: oid
  op_fullName :: string
  op_username :: string
  op_avatar :: string
  op_verified :: bool

record video_summary =
  vs_id :: oid
  vs_thumbnail :: string
  vs_title :: string
  vs_duration :: nat
  vs_views :: nat
  vs_isPublished :: bool
  vs_owner :: "owner_projection option"

record channel_profile =
  cp_id :: oid
  cp_fullName :: string
  cp_username :: string
  cp_subscribersCount :: nat
  cp_channelsSubscibedToCount :: nat
  cp_isSubscribed :: bool
  cp_avatar :: string
  cp_coverImage :: "string option"
  cp_email :: string
  cp_verified :: bool
  cp_createdAt :: int

record history_user =
  hu_watchHistory :: "oid list"
  hu_id :: oid
  hu_username :: string

datatype body =
    Text string
  | Videos "video_summary list"
  | Channel channel_profile
  | HistoryUser history_user
  | Account "user option"
  | Tokens string string

text \<open>
  \<open>new ApiResponse(statusCode, data, message)\<close>; the message is \<open>None\<close> where the
  handler passes two arguments only. \<open>Json n cs r\<close> is \<open>res.status(n)\<close> with the cookies
  \<open>cs\<close> set and \<open>.json(r)\<close> sent.
\<close>

datatype api_response = ApiResponse nat body "string option"

datatype response = Json nat "(string \<times> string) list" api_response

text \<open>The queries a handler sends to the store, in the order it sends them.\<close>

datatype store_call = FindById oid | Aggregate oid

section \<open>JavaScript numbers\<close>

text \<open>
  \<open>parseInt\<close> is a built-in of the language; the handler is modelled from its results.
  A result of \<open>parseInt\<close> is a double that is \<open>NaN\<close>, infinite, or has an integer
  value: \<open>Num n\<close> is the double whose value is the integer \<open>n\<close>.
\<close>

datatype js_number = NaN | Num int | PosInf | NegInf

text \<open>
  The sum, difference or product of two integer-valued doubles is the exact integer
  rounded to the nearest double, ties to the even significand. Below \<open>2 ^ 53\<close> every
  integer is a double. Above, with \<open>k\<close> the number of bits beyond 53, the doubles are
  the multiples of \<open>2 ^ k\<close>; a result of \<open>2 ^ 1024\<close> or more is infinite.
\<close>

function excess_bits :: "nat \<Rightarrow> nat" where
  "excess_bits m = (if m < 2 ^ 53 then 0 else Suc (excess_bits (m div 2)))"
  by pat_completeness auto
termination
  by (relation "measure id") auto

declare excess_bits.simps [simp del]

definition round_double :: "int \<Rightarrow> js_number" where
  "round_double n =
     (let m = nat \<bar>n\<bar>; k = excess_bits m
      in if k = 0 then Num n
         else
           (let q = m div 2 ^ k; r = m mod 2 ^ k; h = 2 ^ (k - 1);
                q' = (if h < r \<or> (r = h \<and> odd q) then q + 1 else q);
                v = q' * 2 ^ k
            in if 2 ^ 1024 \<le> v then (if n < 0 then NegInf else PosInf)
               else Num (if n < 0 then - int v else int v)))"

text \<open>\<open>x - b\<close> and \<open>x < b\<close> for an integer literal \<open>b\<close>, and \<open>x * y\<close>.\<close>

fun js_sub :: "js_number \<Rightarrow> int \<Rightarrow> js_number" where
  "js_sub NaN b = NaN"
| "js_sub (Num a) b = round_double (a - b)"
| "js_sub PosInf b = PosInf"
| "js_sub NegInf b = NegInf"

fun js_lt :: "js_number \<Rightarrow> int \<Rightarrow> bool" where
  "js_lt NaN b = False"
| "js_lt (Num a) b = (a < b)"
| "js_lt PosInf b = False"
| "js_lt NegInf b = True"

fun js_sign :: "js_number \<Rightarrow> int" where
  "js_sign NaN = 0"
| "js_sign (Num a) = sgn a"
| "js_sign PosInf = 1"
| "js_sign NegInf = - 1"

fun js_mul :: "js_number \<Rightarrow> js_number \<Rightarrow> js_number" where
  "js_mul NaN y = NaN"
| "js_mul x NaN = NaN"
| "js_mul (Num a) (Num b) = round_double (a * b)"
| "js_mul x y =
     (if js_sign x * js_sign y = 0 then NaN
      else if 0 < js_sign x * js_sign y then PosInf else NegInf)"

text \<open>\<open>x || d\<close> on numbers: \<open>NaN\<close> and \<open>0\<close> are falsy, so the default is taken.\<close>

definition or_default :: "js_number \<Rightarrow> int \<Rightarrow> js_number" where
  "or_default x d = (if x = NaN \<or> x = Num 0 then Num d else x)"

text \<open>
  The argument of a \<open>$skip\<close> or \<open>$limit\<close> stage as the server reads it: a number that
  is a 64-bit integer, otherwise the stage is refused.
\<close>

fun stage_long :: "js_number \<Rightarrow> nat option" where
  "stage_long (Num n) = (if 0 \<le> n \<and> n < 2 ^ 63 then Some (nat n) else None)"
| "stage_long x = None"

section \<open>Store queries\<close>

definition findById :: "user list \<Rightarrow> oid \<Rightarrow> user option" where
  "findById us i = find (\<lambda>u. user_id u = i) us"

text \<open>\<open>$first\<close> of an array: its first element, missing when the array is empty.\<close>

definition first :: "'a list \<Rightarrow> 'a option" where
  "first xs = (case xs of [] \<Rightarrow> None | x # _ \<Rightarrow> Some x)"

section \<open>Watch history\<close>

definition project_owner :: "user \<Rightarrow> owner_projection" where
  "project_owner u =
     \<lparr>op_id = user_id u, op_fullName = fullName u, op_username = username u,
      op_avatar = avatar u, op_verified = verified u\<rparr>"

definition project_video :: "video \<Rightarrow> owner_projection option \<Rightarrow> video_summary" where
  "project_video v ow =
     \<lparr>vs_id = video_id v, vs_thumbnail = thumbnail v, vs_title = title v,
      vs_duration = duration v, vs_views = views v, vs_isPublished = isPublished v,
      vs_owner = ow\<rparr>"

text \<open>The inner \<open>$lookup\<close> of a video's owner in \<open>users\<close>, with its projection.\<close>

definition owner_lookup :: "user list \<Rightarrow> video \<Rightarrow> owner_projection list" where
  "owner_lookup us v = map project_owner (filter (\<lambda>u. user_id u = owner v) us)"

text \<open>
  The pipeline of the \<open>$lookup\<close> into \<open>videos\<close>, run on the videos joined to one
  history entry: \<open>$match isPublished\<close>, \<open>$sort createdAt: -1\<close>, the owner lookup,
  \<open>$first\<close> of the owners, and the projection.
\<close>

definition video_pipeline :: "user list \<Rightarrow> video list \<Rightarrow> video_summary list" where
  "video_pipeline us vs =
     map (\<lambda>v. project_video v (first (owner_lookup us v)))
       (sort_key (\<lambda>v. - video_createdAt v) (filter isPublished vs))"

definition lookup_videos :: "db \<Rightarrow> oid \<Rightarrow> video_summary list" where
  "lookup_videos d i = video_pipeline (users d) (filter (\<lambda>v. video_id v = i) (videos d))"

text \<open>\<open>$group\<close> with \<open>_id: null\<close> and \<open>$push\<close>: one document holding all, none for no input.\<close>

definition group_push :: "'a list \<Rightarrow> 'a list list" where
  "group_push xs = (if xs = [] then [] else [xs])"

text \<open>
  The aggregation of \<open>getWatchHistory\<close>, stage by stage: \<open>$match\<close> on the viewer's id,
  \<open>$project\<close> with \<open>$reverseArray\<close>, \<open>$unwind\<close>, the \<open>$lookup\<close>, \<open>$unwind\<close> (which drops
  an entry joined to nothing), \<open>$replaceRoot\<close>, \<open>$skip\<close>, \<open>$limit\<close>, \<open>$group\<close>. The
  server refuses the pipeline when \<open>skip\<close> or \<open>limit\<close> is no 64-bit integer.
\<close>

definition watch_history_aggregate ::
  "db \<Rightarrow> oid \<Rightarrow> js_number \<Rightarrow> js_number \<Rightarrow> error + video_summary list list" where
  "watch_history_aggregate d uid skip limit =
     (case (stage_long skip, stage_long limit) of
        (Some s, Some l) \<Rightarrow>
          (let matched = filter (\<lambda>u. user_id u = uid) (users d);
               projected = map (\<lambda>u. rev (watchHistory u)) matched;
               unwound = concat projected;
               joined = map (lookup_videos d) unwound;
               roots = concat joined
           in Inr (group_push (take l (drop s roots))))
      | _ \<Rightarrow> Inl (MongoServerError ''invalid argument to $skip or $limit''))"

text \<open>
  \<open>getWatchHistory\<close>. \<open>parsedPage\<close> and \<open>parsedLimit\<close> are the values of
  \<open>parseInt(req.query.page, 10)\<close> and \<open>parseInt(req.query.limit, 10)\<close>; the viewer \<open>uid\<close>
  is \<open>req.user._id\<close>. The second component lists the queries sent to the store.
\<close>

definition getWatchHistory ::
  "db \<Rightarrow> oid \<Rightarrow> js_number \<Rightarrow> js_number \<Rightarrow> (error + response) \<times> store_call list" where
  "getWatchHistory d uid parsedPage parsedLimit =
     (case findById (users d) uid of
        None \<Rightarrow> (Inl (ApiError 404 ''User does not exists''), [FindById uid])
      | Some findUser \<Rightarrow>
          (let page = or_default parsedPage 1;
               limit = or_default parsedLimit 10
           in if js_lt page 1 \<or> js_lt limit 1
              then (Inr (Json 400 []
                      (ApiResponse 400 (Text ''Page and limit must be positive integers'') None)),
                    [FindById uid])
              else
                (let skip = js_mul (js_sub page 1) limit
                 in case watch_history_aggregate d uid skip limit of
                      Inl e \<Rightarrow> (Inl e, [FindById uid, Aggregate uid])
                    | Inr user \<Rightarrow>
                        (Inr (Json 200 []
                           (ApiResponse 200
                              (Videos (case user of [] \<Rightarrow> [] | g # _ \<Rightarrow> g))
                              (Some ''Watch history fetched successfully''))),
                         [FindById uid, Aggregate uid]))))"

text \<open>
  \<open>User.findByIdAndUpdate(id, update, {new: true})\<close>: the first document with the id is
  replaced by its update and returned; without such a document nothing changes and the
  result is \<open>null\<close>.
\<close>

fun findByIdAndUpdate :: "user list \<Rightarrow> oid \<Rightarrow> (user \<Rightarrow> user) \<Rightarrow> user option \<times> user list" where
  "findByIdAndUpdate [] i f = (None, [])"
| "findByIdAndUpdate (u # us) i f =
     (if user_id u = i then (Some (f u), f u # us)
      else (case findByIdAndUpdate us i f of (r, us') \<Rightarrow> (r, u # us')))"

text \<open>\<open>Video.findOne({_id: videoId, isPublished: true})\<close>.\<close>

definition findOnePublished :: "video list \<Rightarrow> oid \<Rightarrow> video option" where
  "findOnePublished vs i = find (\<lambda>v. video_id v = i \<and> isPublished v) vs"

text \<open>
  \<open>pushVideoToWatchHistory\<close>. Mongoose's \<open>isValidObjectId\<close> is a parameter. The viewer
  \<open>uid\<close> is \<open>req.user._id\<close>, set by the authentication middleware.
\<close>

definition pushVideoToWatchHistory ::
  "(string \<Rightarrow> bool) \<Rightarrow> db \<Rightarrow> oid \<Rightarrow> string \<Rightarrow> (error + response) \<times> db" where
  "pushVideoToWatchHistory isValidObjectId d uid videoId =
     (if \<not> isValidObjectId videoId
      then (Inl (ApiError 400 ''video id is not a valid object id''), d)
      else
        (case findOnePublished (videos d) videoId of
           None \<Rightarrow> (Inl (ApiError 400 ''video not found''), d)
         | Some isVideoAvl \<Rightarrow>
             (case findByIdAndUpdate (users d) uid
                     (\<lambda>u. u\<lparr>watchHistory := watchHistory u @ [video_id isVideoAvl]\<rparr>) of
                (None, us') \<Rightarrow> (Inl (ApiError 400 ''User not found''), d)
              | (Some user, us') \<Rightarrow>
                  (Inr (Json 200 []
                     (ApiResponse 200
                        (HistoryUser \<lparr>hu_watchHistory = watchHistory user,
                                      hu_id = user_id user, hu_username = username user\<rparr>)
                        (Some ''Video added to watchHistory successfully''))),
                   d\<lparr>users := us'\<rparr>))))"

section \<open>Channel profile\<close>

text \<open>
  \<open>s.includes(sub)\<close>: \<open>sub\<close> occurs in \<open>s\<close> as a run of adjacent characters.
\<close>

fun starts_with :: "string \<Rightarrow> string \<Rightarrow> bool" where
  "starts_with s [] = True"
| "starts_with [] (p # ps) = False"
| "starts_with (c # cs) (p # ps) = (c = p \<and> starts_with cs ps)"

fun str_includes :: "string \<Rightarrow> string \<Rightarrow> bool" where
  "str_includes [] sub = (sub = [])"
| "str_includes (c # cs) sub = (starts_with (c # cs) sub \<or> str_includes cs sub)"

text \<open>
  The aggregation of \<open>getUserChannelProfile\<close> for one matched user: the two \<open>$lookup\<close>
  stages into \<open>subscriptions\<close>, \<open>$addFields\<close> and \<open>$project\<close>. The viewer is
  \<open>req.user?._id\<close>; an absent viewer reaches the store as \<open>null\<close>, which is no edge's
  subscriber.
\<close>

definition channel_fields :: "subscription list \<Rightarrow> oid option \<Rightarrow> user \<Rightarrow> channel_profile" where
  "channel_fields subs viewer u =
     (let subscribers = filter (\<lambda>s. channel s = user_id u) subs;
          subscribedTo = filter (\<lambda>s. subscriber s = user_id u) subs
      in \<lparr>cp_id = user_id u, cp_fullName = fullName u, cp_username = username u,
          cp_subscribersCount = length subscribers,
          cp_channelsSubscibedToCount = length subscribedTo,
          cp_isSubscribed =
            (case viewer of None \<Rightarrow> False
             | Some v \<Rightarrow> v \<in> set (map subscriber subscribers)),
          cp_avatar = avatar u, cp_coverImage = coverImage u, cp_email = user_email u,
          cp_verified = verified u, cp_createdAt = user_createdAt u\<rparr>)"

text \<open>
  \<open>String.prototype.toLowerCase\<close> and \<open>String.prototype.trim\<close> are built-ins of the
  language and parameters here.
\<close>

definition channel_aggregate ::
  "(string \<Rightarrow> string) \<Rightarrow> db \<Rightarrow> oid option \<Rightarrow> string \<Rightarrow> channel_profile list" where
  "channel_aggregate toLowerCase d viewer name =
     map (channel_fields (subscriptions d) viewer)
       (filter (\<lambda>u. username u = toLowerCase name) (users d))"

definition getUserChannelProfile ::
  "(string \<Rightarrow> string) \<Rightarrow> (string \<Rightarrow> string) \<Rightarrow> db \<Rightarrow> oid option \<Rightarrow> string option
   \<Rightarrow> error + response" where
  "getUserChannelProfile trim toLowerCase d viewer param =
     (case param of
        None \<Rightarrow> Inl (ApiError 400 ''username is missing'')
      | Some name \<Rightarrow>
          if trim name = [] then Inl (ApiError 400 ''username is missing'')
          else
            (case channel_aggregate toLowerCase d viewer name of
               [] \<Rightarrow> Inl (ApiError 404 ''channel does not exists'')
             | c # _ \<Rightarrow>
                 Inr (Json 200 []
                   (ApiResponse 200 (Channel c) (Some ''User channel fetched successfully'')))))"

section \<open>OTP verification\<close>

text \<open>A value of the request body is falsy when it is absent or the empty string.\<close>

definition falsy :: "string option \<Rightarrow> bool" where
  "falsy x = (case x of None \<Rightarrow> True | Some s \<Rightarrow> s = [])"

text \<open>\<open>s.split(c)\<close> and the element at an index, \<open>undefined\<close> out of range.\<close>

fun split :: "char \<Rightarrow> string \<Rightarrow> string list" where
  "split c [] = [[]]"
| "split c (x # xs) =
     (if x = c then [] # split c xs
      else (case split c xs of [] \<Rightarrow> [[x]] | w # ws \<Rightarrow> (x # w) # ws))"

definition at_index :: "'a list \<Rightarrow> nat \<Rightarrow> 'a option" where
  "at_index xs n = (if n < length xs then Some (xs ! n) else None)"

text \<open>\<open>Otp.findOne({email})\<close> and \<open>Otp.deleteOne({email})\<close>: the first match.\<close>

definition findOneOtp :: "otp list \<Rightarrow> string \<Rightarrow> otp option" where
  "findOneOtp os e = find (\<lambda>r. otp_email r = e) os"

fun deleteOneOtp :: "otp list \<Rightarrow> string \<Rightarrow> otp list" where
  "deleteOneOtp [] e = []"
| "deleteOneOtp (r # rs) e = (if otp_email r = e then rs else r # deleteOneOtp rs e)"

text \<open>
  The middleware \<open>verifyOtp\<close>. The method \<open>isOtpCorrect\<close> of the OTP model is a
  parameter; \<open>now\<close> is \<open>new Date()\<close>. \<open>Inr True\<close> is \<open>req.verifyOtp = true\<close> followed by
  \<open>next()\<close>.
\<close>

definition verifyOtp ::
  "(otp \<Rightarrow> string \<Rightarrow> bool) \<Rightarrow> int \<Rightarrow> db \<Rightarrow> string \<Rightarrow> string option \<Rightarrow> string option
   \<Rightarrow> (error + bool) \<times> db" where
  "verifyOtp isOtpCorrect now d url email code =
     (if falsy email \<or> falsy code then (Inl (ApiError 400 ''Email and otp is required''), d)
      else
        (case findOneOtp (otps d) (the email) of
           None \<Rightarrow> (Inl (ApiError 404 ''Otp not found''), d)
         | Some otpData \<Rightarrow>
             if expires otpData < now then (Inl (ApiError 404 ''Otp is expired''), d)
             else if at_index (split CHR ''/'' url) 1 \<noteq> Some (otp_context otpData)
             then (Inl (ApiError 404 ''Invalid otp''), d)
             else if \<not> isOtpCorrect otpData (the code)
             then (Inl (ApiError 404 ''Invalid otp''), d)
             else (Inr True, d\<lparr>otps := deleteOneOtp (otps d) (otp_email otpData)\<rparr>)))"

section \<open>Refresh-token exchange\<close>

text \<open>
  \<open>generateAccessAndRefreshTokens\<close>: the two signing methods of the user model are
  parameters, \<open>None\<close> when they throw. Every failure inside becomes
  \<open>ApiError(500, "Something went wrong")\<close>. \<open>user.save\<close> writes the new refresh token to
  the document with the user's id.
\<close>

definition generateAccessAndRefreshTokens ::
  "(user \<Rightarrow> string option) \<Rightarrow> (user \<Rightarrow> string option) \<Rightarrow> db \<Rightarrow> oid
   \<Rightarrow> (error + string \<times> string) \<times> db" where
  "generateAccessAndRefreshTokens generateAccessToken generateRefreshToken d userId =
     (case findById (users d) userId of
        None \<Rightarrow> (Inl (ApiError 500 ''Something went wrong''), d)
      | Some user \<Rightarrow>
          (case generateAccessToken user of
             None \<Rightarrow> (Inl (ApiError 500 ''Something went wrong''), d)
           | Some accessToken \<Rightarrow>
               (case generateRefreshToken user of
                  None \<Rightarrow> (Inl (ApiError 500 ''Something went wrong''), d)
                | Some newToken \<Rightarrow>
                    (Inr (accessToken, newToken),
                     d\<lparr>users := snd (findByIdAndUpdate (users d) userId
                                        (\<lambda>u. u\<lparr>refreshToken := Some newToken\<rparr>))\<rparr>))))"

text \<open>\<open>a || b\<close> on two optional strings.\<close>

definition or_else :: "string option \<Rightarrow> string option \<Rightarrow> string option" where
  "or_else a b = (if falsy a then b else a)"

text \<open>The message of an error, as \<open>error?.message\<close> reads it.\<close>

fun message :: "error \<Rightarrow> string" where
  "message (ApiError n m) = m"
| "message (ReferenceError m) = m"
| "message (TypeError m) = m"
| "message (FsError m) = m"
| "message (JsonWebTokenError m) = m"
| "message (MongoServerError m) = m"

text \<open>The \<open>catch\<close> of \<open>refreshAccessToken\<close>: any error is rethrown with status 401.\<close>

definition rethrow401 :: "error \<Rightarrow> error" where
  "rethrow401 e = ApiError 401 (if message e = [] then ''Invalid refresh token'' else message e)"

text \<open>
  \<open>refreshAccessToken\<close>. \<open>jwt.verify\<close> with the server's secret is a parameter: \<open>Inl m\<close>
  when it throws an error with message \<open>m\<close> (bad signature, expired), else the \<open>_id\<close> of
  the decoded payload, if it has one.
\<close>

definition refreshAccessToken ::
  "(string \<Rightarrow> string + oid option) \<Rightarrow> (user \<Rightarrow> string option) \<Rightarrow> (user \<Rightarrow> string option)
   \<Rightarrow> db \<Rightarrow> string option \<Rightarrow> string option \<Rightarrow> (error + response) \<times> db" where
  "refreshAccessToken jwt_verify generateAccessToken generateRefreshToken d cookie bodyToken =
     (let incomingRefreshToken = or_else cookie bodyToken
      in if falsy incomingRefreshToken
         then (Inl (rethrow401 (ApiError 401 ''Unauthorized request'')), d)
         else
           (case jwt_verify (the incomingRefreshToken) of
              Inl m \<Rightarrow> (Inl (rethrow401 (JsonWebTokenError m)), d)
            | Inr decoded_id \<Rightarrow>
                (case (case decoded_id of None \<Rightarrow> None | Some i \<Rightarrow> findById (users d) i) of
                   None \<Rightarrow> (Inl (rethrow401 (ApiError 401 ''Invalid refresh token'')), d)
                 | Some user \<Rightarrow>
                     if incomingRefreshToken \<noteq> refreshToken user
                     then (Inl (rethrow401 (ApiError 401 ''Refresh token is expired or used'')), d)
                     else
                       (case generateAccessAndRefreshTokens generateAccessToken
                               generateRefreshToken d (user_id user) of
                          (Inl e, d') \<Rightarrow> (Inl (rethrow401 e), d')
                        | (Inr (accessToken, newToken), d') \<Rightarrow>
                            (Inr (Json 200
                               [(''accessToken'', accessToken), (''refreshToken'', newToken)]
                               (ApiResponse 200 (Tokens accessToken newToken)
                                  (Some ''Access token refreshed''))),
                             d')))))"

section \<open>Avatar and cover image\<close>

text \<open>
  The uploaded file of the request (\<open>req.file\<close>), the local files, and the calls made to
  the media storage. \<open>cloudinary.upload\<close> is a parameter giving the \<open>secure_url\<close> of its
  result, if it has one; an empty one is falsy like a missing one.
\<close>

record upload_file =
  path :: string
  mimetype :: string

datatype cloud_call = Upload string string | Delete string

record world =
  store :: db
  files :: "string set"
  remote_calls :: "cloud_call list"

text \<open>\<open>fs.unlinkSync\<close> removes the file and throws when there is none.\<close>

definition unlinkSync :: "string set \<Rightarrow> string \<Rightarrow> error + string set" where
  "unlinkSync fs p = (if p \<in> fs then Inr (fs - {p}) else Inl (FsError ''ENOENT''))"

text \<open>
  \<open>updateUserAvatar\<close>. The options object \<open>{ new: ture }\<close> reads the undeclared
  identifier \<open>ture\<close>: evaluating the arguments of \<open>findByIdAndUpdate\<close> throws a
  \<open>ReferenceError\<close>, so the update is never sent.
\<close>

definition updateUserAvatar ::
  "(string \<Rightarrow> string \<Rightarrow> string option) \<Rightarrow> world \<Rightarrow> oid \<Rightarrow> upload_file option
   \<Rightarrow> (error + response) \<times> world" where
  "updateUserAvatar upload w uid file =
     (case file of
        None \<Rightarrow> (Inl (ApiError 400 ''Avatar file is missing''), w)
      | Some f \<Rightarrow>
          if path f = [] then (Inl (ApiError 400 ''Avatar file is missing''), w)
          else if \<not> str_includes (mimetype f) ''image''
          then (case unlinkSync (files w) (path f) of
                  Inl e \<Rightarrow> (Inl e, w)
                | Inr fs' \<Rightarrow>
                    (Inl (ApiError 400 ''Only images are allowed to upload''), w\<lparr>files := fs'\<rparr>))
          else
            (let w1 = w\<lparr>remote_calls := remote_calls w @ [Upload (path f) ''videotube/users'']\<rparr>;
                 secure_url = upload (path f) ''videotube/users''
             in if falsy secure_url
                then (Inl (ApiError 500 ''Error while uploading avatar''), w1)
                else
                  (case findById (users (store w1)) uid of
                     None \<Rightarrow> (Inl (TypeError ''Cannot read properties of null''), w1)
                   | Some oldUser \<Rightarrow>
                       (Inl (ReferenceError ''ture is not defined''),
                        w1\<lparr>remote_calls := remote_calls w1 @ [Delete (avatar oldUser)]\<rparr>))))"

text \<open>
  \<open>updateUserCoverImage\<close>; the response carries the updated document, \<open>null\<close> when no
  user has the id.
\<close>

definition updateUserCoverImage ::
  "(string \<Rightarrow> string \<Rightarrow> string option) \<Rightarrow> world \<Rightarrow> oid \<Rightarrow> upload_file option
   \<Rightarrow> (error + response) \<times> world" where
  "updateUserCoverImage upload w uid file =
     (case file of
        None \<Rightarrow> (Inl (ApiError 400 ''Cover file is missing''), w)
      | Some f \<Rightarrow>
          if path f = [] then (Inl (ApiError 400 ''Cover file is missing''), w)
          else if str_includes (mimetype f) ''gif'' \<or> \<not> str_includes (mimetype f) ''image''
          then (case unlinkSync (files w) (path f) of
                  Inl e \<Rightarrow> (Inl e, w)
                | Inr fs' \<Rightarrow>
                    (Inl (ApiError 400 ''Only images are allowed to upload''), w\<lparr>files := fs'\<rparr>))
          else
            (let w1 = w\<lparr>remote_calls := remote_calls w @ [Upload (path f) ''videotube/users'']\<rparr>;
                 secure_url = upload (path f) ''videotube/users''
             in if falsy secure_url
                then (Inl (ApiError 500 ''Error while uploading cover image''), w1)
                else
                    (let w2 = (case findById (users (store w1)) uid of
                                 None \<Rightarrow> w1
                               | Some oldUser \<Rightarrow>
                                   (case coverImage oldUser of
                                      None \<Rightarrow> w1
                                    | Some old \<Rightarrow>
                                        if old = [] then w1
                                        else w1\<lparr>remote_calls := remote_calls w1 @ [Delete old]\<rparr>))
                     in case findByIdAndUpdate (users (store w2)) uid
                               (\<lambda>u. u\<lparr>coverImage := secure_url\<rparr>) of
                          (user, us') \<Rightarrow>
                            (Inr (Json 200 []
                               (ApiResponse 200 (Account user)
                                  (Some ''coverImage updated successfully''))),
                             w2\<lparr>store := (store w2)\<lparr>users := us'\<rparr>\<rparr>))))"

text \<open>The store after \<open>$push\<close> of \<open>x\<close> to the history of the user \<open>uid\<close>.\<close>

definition pushed :: "db \<Rightarrow> oid \<Rightarrow> oid \<Rightarrow> db" where
  "pushed d uid x =
     d\<lparr>users := snd (findByIdAndUpdate (users d) uid (\<lambda>u. u\<lparr>watchHistory := watchHistory u @ [x]\<rparr>))\<rparr>"

section \<open>The watch history as the specification words it\<close>

text \<open>
  The feed of a viewer: the stored sequence reversed, each entry replaced by the published
  video it names (an entry naming none is left out), each video summarised with its
  owner, then \<open>(page - 1) * limit\<close> entries skipped and at most \<open>limit\<close> kept.
\<close>

definition spec_published_video :: "db \<Rightarrow> oid \<Rightarrow> video option" where
  "spec_published_video d i = find (\<lambda>v. video_id v = i \<and> isPublished v) (videos d)"

definition spec_summary :: "db \<Rightarrow> video \<Rightarrow> video_summary" where
  "spec_summary d v = project_video v (map_option project_owner (findById (users d) (owner v)))"

definition spec_feed :: "db \<Rightarrow> oid list \<Rightarrow> video_summary list" where
  "spec_feed d history =
     map (spec_summary d) (List.map_filter (spec_published_video d) (rev history))"

definition spec_watch_history :: "db \<Rightarrow> oid list \<Rightarrow> int \<Rightarrow> int \<Rightarrow> video_summary list" where
  "spec_watch_history d history page limit =
     take (nat limit) (drop (nat ((page - 1) * limit)) (spec_feed d history))"

section \<open>An example store\<close>

definition alice :: user where
  "alice = \<lparr>user_id = ''u1'', username = ''alice'', user_email = ''alice@example.com'',
            fullName = ''Alice A'', avatar = ''http://cdn/a.png'', coverImage = None,
            verified = True, watchHistory = [''v1'', ''v2'', ''v4'', ''v3''],
            refreshToken = Some ''tok-alice'', user_createdAt = 100\<rparr>"

definition bob :: user where
  "bob = \<lparr>user_id = ''u2'', username = ''bob'', user_email = ''bob@example.com'',
          fullName = ''Bob B'', avatar = ''http://cdn/b.png'', coverImage = Some ''http://cdn/bc.png'',
          verified = False, watchHistory = [],
          refreshToken = None, user_createdAt = 200\<rparr>"

definition mk_video :: "oid \<Rightarrow> oid \<Rightarrow> bool \<Rightarrow> int \<Rightarrow> video" where
  "mk_video i ow pub t =
     \<lparr>video_id = i, owner = ow, isPublished = pub, title = ''title-'' @ i,
      thumbnail = ''thumb-'' @ i, duration = 60, views = 7, video_createdAt = t\<rparr>"

definition example_db :: db where
  "example_db =
     \<lparr>users = [alice, bob],
      videos = [mk_video ''v1'' ''u2'' True 10, mk_video ''v2'' ''u2'' True 30,
                mk_video ''v3'' ''u1'' True 20, mk_video ''v4'' ''u2'' False 40],
      subscriptions = [\<lparr>subscriber = ''u1'', channel = ''u2''\<rparr>],
      otps = [\<lparr>otp_email = ''carol@example.com'', otp_code = ''123456'',
               otp_context = ''register'', expires = 1000\<rparr>]\<rparr>"

definition mk_summary :: "oid \<Rightarrow> user \<Rightarrow> video_summary" where
  "mk_summary i u =
     \<lparr>vs_id = i, vs_thumbnail = ''thumb-'' @ i, vs_title = ''title-'' @ i,
      vs_duration = 60, vs_views = 7, vs_isPublished = True,
      vs_owner = Some (project_owner u)\<rparr>"

text \<open>The profile of the example's second user, with the viewer's flag.\<close>

definition bob_profile :: "bool \<Rightarrow> channel_profile" where
  "bob_profile sub =
     \<lparr>cp_id = ''u2'', cp_fullName = ''Bob B'', cp_username = ''bob'',
      cp_subscribersCount = 1, cp_channelsSubscibedToCount = 0,
      cp_isSubscribed = sub, cp_avatar = ''http://cdn/b.png'',
      cp_coverImage = Some ''http://cdn/bc.png'',
      cp_email = ''bob@example.com'', cp_verified = False, cp_createdAt = 200\<rparr>"


text \<open>
  Stand-ins for the examples: for the built-ins \<open>trim\<close> and \<open>toLowerCase\<close> (they
  agree with the language on strings of ASCII letters, digits and spaces, the only ones
  they are applied to), for the library functions and the model methods, and a world
  around the store.
\<close>

definition example_is_space :: "char \<Rightarrow> bool" where
  "example_is_space c = (c = CHR '' '')"

definition example_trim :: "string \<Rightarrow> string" where
  "example_trim s = rev (dropWhile example_is_space (rev (dropWhile example_is_space s)))"

definition example_lower_char :: "char \<Rightarrow> char" where
  "example_lower_char c =
     (if 65 \<le> (of_char c :: nat) \<and> (of_char c :: nat) \<le> 90
      then char_of (of_char c + 32 :: nat) else c)"

definition example_toLowerCase :: "string \<Rightarrow> string" where
  "example_toLowerCase s = map example_lower_char s"

definition example_isValidObjectId :: "string \<Rightarrow> bool" where
  "example_isValidObjectId s = (length s = 2)"

definition example_isOtpCorrect :: "otp \<Rightarrow> string \<Rightarrow> bool" where
  "example_isOtpCorrect r c = (otp_code r = c)"

definition example_jwt_verify :: "string \<Rightarrow> string + oid option" where
  "example_jwt_verify t =
     (if t = ''tok-alice'' \<or> t = ''old-alice'' then Inr (Some ''u1'') else Inl ''invalid signature'')"

definition example_generateAccessToken :: "user \<Rightarrow> string option" where
  "example_generateAccessToken u = Some (''access-'' @ user_id u)"

definition example_generateRefreshToken :: "user \<Rightarrow> string option" where
  "example_generateRefreshToken u = Some (''refresh-'' @ user_id u)"

definition example_upload :: "string \<Rightarrow> string \<Rightarrow> string option" where
  "example_upload p folder = Some (''https://cdn/'' @ folder @ p)"

definition example_world :: world where
  "example_world =
     \<lparr>store = example_db, files = {''/tmp/a.png'', ''/tmp/b.gif'', ''/tmp/c.txt''},
      remote_calls = []\<rparr>"

section \<open>Facts about lists and the store queries\<close>

lemma filter_key_distinct:
  "distinct (map f xs) \<Longrightarrow>
   filter (\<lambda>x. f x = i \<and> P x) xs = (case find (\<lambda>x. f x = i \<and> P x) xs of None \<Rightarrow> [] | Some x \<Rightarrow> [x])"
proof (induction xs)
  case Nil
  then show ?case by simp
next
  case (Cons a xs)
  show ?case
  proof (cases "f a = i")
    case True
    with Cons.prems have "\<forall>x\<in>set xs. f x \<noteq> i" by (auto simp: image_iff)
    then have "filter (\<lambda>x. f x = i \<and> P x) xs = []" by (auto simp: filter_empty_conv)
    moreover from \<open>\<forall>x\<in>set xs. f x \<noteq> i\<close> have "find (\<lambda>x. f x = i \<and> P x) xs = None"
      by (auto simp: find_None_iff)
    ultimately show ?thesis using True by simp
  next
    case False
    with Cons show ?thesis by simp
  qed
qed

lemma first_map_filter: "first (map g (filter P xs)) = map_option g (find P xs)"
  by (induction xs) (auto simp: first_def)

lemma lookup_videos_distinct:
  assumes "distinct (map video_id (videos d))"
  shows "lookup_videos d i =
     (case spec_published_video d i of None \<Rightarrow> [] | Some v \<Rightarrow> [spec_summary d v])"
proof -
  have "filter isPublished (filter (\<lambda>v. video_id v = i) (videos d))
        = filter (\<lambda>v. video_id v = i \<and> isPublished v) (videos d)"
    by (simp add: conj_commute)
  also have "\<dots> = (case find (\<lambda>v. video_id v = i \<and> isPublished v) (videos d) of
                     None \<Rightarrow> [] | Some v \<Rightarrow> [v])"
    using assms by (rule filter_key_distinct)
  finally show ?thesis
    by (simp add: lookup_videos_def video_pipeline_def spec_published_video_def
        spec_summary_def owner_lookup_def first_map_filter findById_def split: option.splits)
qed

lemma concat_lookup:
  assumes "distinct (map video_id (videos d))"
  shows "concat (map (lookup_videos d) ids) = map (spec_summary d) (List.map_filter (spec_published_video d) ids)"
  by (induction ids) (simp_all add: lookup_videos_distinct[OF assms] List.map_filter_simps split: option.splits)

lemma filter_id_found:
  "distinct (map f xs) \<Longrightarrow> find (\<lambda>x. f x = i) xs = Some u \<Longrightarrow> filter (\<lambda>x. f x = i) xs = [u]"
  using filter_key_distinct[of f xs i "\<lambda>_. True"] by simp

lemma aggregate_feed:
  assumes "distinct (map video_id (videos d))" "distinct (map user_id (users d))"
    "findById (users d) uid = Some u"
    "stage_long skip = Some s" "stage_long limit = Some l"
  shows "watch_history_aggregate d uid skip limit
         = Inr (group_push (take l (drop s (spec_feed d (watchHistory u)))))"
proof -
  have "filter (\<lambda>u. user_id u = uid) (users d) = [u]"
    using assms(2,3) by (simp add: findById_def filter_id_found)
  then show ?thesis
    using assms(4,5)
    by (simp add: watch_history_aggregate_def concat_lookup[OF assms(1)] spec_feed_def Let_def)
qed

lemma group_push_first: "(case group_push xs of [] \<Rightarrow> [] | g # _ \<Rightarrow> g) = xs"
  by (simp add: group_push_def)

section \<open>Doubles below \<open>2 ^ 53\<close>\<close>

lemma round_double_exact: "\<bar>n\<bar> < 2 ^ 53 \<Longrightarrow> round_double n = Num n"
proof -
  assume "\<bar>n\<bar> < 2 ^ 53"
  then have "nat \<bar>n\<bar> < 2 ^ 53" by simp
  then have "excess_bits (nat \<bar>n\<bar>) = 0" by (subst excess_bits.simps) simp
  then show ?thesis by (simp add: round_double_def)
qed

lemma or_default_nonzero: "n \<noteq> 0 \<Longrightarrow> or_default (Num n) d = Num n"
  by (simp add: or_default_def)

lemma or_default_falsy: "or_default NaN d = Num d" "or_default (Num 0) d = Num d"
  by (simp_all add: or_default_def)

lemma or_default_infinite: "or_default PosInf d = PosInf" "or_default NegInf d = NegInf"
  by (simp_all add: or_default_def)

section \<open>Evaluating the example\<close>

lemmas ex_defs = example_db_def alice_def bob_def mk_video_def mk_summary_def project_owner_def

section \<open>The watch-history aggregator\<close>

text \<open>
  With unique video and user identifiers (the store's \<open>_id\<close> index), the join of one
  history entry gives at most one video. For a page and a limit of at least 1 (after the
  defaults) whose product is below \<open>2 ^ 53\<close>, the arithmetic of the handler is exact
  and its answer is the feed of the specification.
\<close>

lemma getWatchHistory_page:
  assumes "distinct (map video_id (videos d))" "distinct (map user_id (users d))"
    "findById (users d) uid = Some u"
    "or_default parsedPage 1 = Num page" "or_default parsedLimit 10 = Num limit"
    "1 \<le> page" "1 \<le> limit" "page * limit < 2 ^ 53"
  shows "getWatchHistory d uid parsedPage parsedLimit =
     (Inr (Json 200 []
        (ApiResponse 200 (Videos (spec_watch_history d (watchHistory u) page limit))
           (Some ''Watch history fetched successfully''))),
      [FindById uid, Aggregate uid])"
proof -
  have a: "limit \<le> page * limit" using mult_right_mono[of 1 page limit] assms(6,7) by simp
  have b: "page \<le> page * limit" using mult_left_mono[of 1 limit page] assms(6,7) by simp
  have c: "(page - 1) * limit \<le> page * limit"
    using mult_right_mono[of "page - 1" page limit] assms(7) by simp
  have c0: "0 \<le> (page - 1) * limit" using assms(6,7) by simp
  have "\<bar>page - 1\<bar> < 2 ^ 53" using b assms(6,8) by linarith
  then have sub: "round_double (page - 1) = Num (page - 1)"
    by (rule round_double_exact)
  have "\<bar>(page - 1) * limit\<bar> < 2 ^ 53" using c c0 assms(8) by linarith
  then have mul: "round_double ((page - 1) * limit) = Num ((page - 1) * limit)"
    by (rule round_double_exact)
  have s: "stage_long (Num ((page - 1) * limit)) = Some (nat ((page - 1) * limit))"
    using c c0 assms(8) by simp
  have "limit < 2 ^ 53" using a assms(8) by linarith
  then have l: "stage_long (Num limit) = Some (nat limit)"
    using assms(7) by simp
  have lt: "\<not> js_lt (Num page) 1" "\<not> js_lt (Num limit) 1" using assms(6,7) by simp_all
  show ?thesis
    using assms(3,4,5) lt
    by (simp add: getWatchHistory_def Let_def sub mul
        aggregate_feed[OF assms(1-3) s l] group_push_first spec_watch_history_def)
qed

text \<open>
  Claim C1. For a viewer in the store and a page and a limit that parse to integers of
  at least 1 (with a product below \<open>2 ^ 53\<close>, where the doubles of the handler are
  exact), the handler answers 200 with the stored watch history reversed, restricted to
  the entries that name a published video, each summarised with its owner, after
  skipping \<open>(page - 1) * limit\<close> entries and keeping at most \<open>limit\<close>. Video and user
  identifiers are unique in their collections.
\<close>

theorem watch_history_reversed_published_paginated:
  assumes "distinct (map video_id (videos d))" and "distinct (map user_id (users d))"
    and "findById (users d) uid = Some u"
    and "parsedPage = Num page" and "parsedLimit = Num limit"
    and "1 \<le> page" and "1 \<le> limit" and "page * limit < 2 ^ 53"
  shows "fst (getWatchHistory d uid parsedPage parsedLimit) =
     Inr (Json 200 []
        (ApiResponse 200 (Videos (spec_watch_history d (watchHistory u) page limit))
           (Some ''Watch history fetched successfully'')))"
proof -
  have "or_default parsedPage 1 = Num page" "or_default parsedLimit 10 = Num limit"
    using assms(4-7) by (simp_all add: or_default_nonzero)
  from getWatchHistory_page[OF assms(1-3) this assms(6-8)] show ?thesis by simp
qed

text \<open>
  The viewer of the example has the history \<open>[v1, v2, v4, v3]\<close>, oldest first, and \<open>v4\<close>
  is unpublished: page 1 with limit 10 is \<open>[v3, v2, v1]\<close>, and page 2 with limit 1 is
  \<open>[v2]\<close>.
\<close>

lemma example_feed:
  "spec_feed example_db (watchHistory alice)
     = [mk_summary ''v3'' alice, mk_summary ''v2'' bob, mk_summary ''v1'' bob]"
  by (simp add: spec_feed_def spec_summary_def spec_published_video_def
      List.map_filter_simps findById_def project_video_def ex_defs)

theorem watch_history_reversed_published_paginated_witness:
  "distinct (map video_id (videos example_db)) \<and> distinct (map user_id (users example_db))
   \<and> findById (users example_db) ''u1'' = Some alice
   \<and> watchHistory alice = [''v1'', ''v2'', ''v4'', ''v3'']
   \<and> fst (getWatchHistory example_db ''u1'' (Num 1) (Num 10)) =
     Inr (Json 200 []
        (ApiResponse 200 (Videos [mk_summary ''v3'' alice, mk_summary ''v2'' bob, mk_summary ''v1'' bob])
           (Some ''Watch history fetched successfully'')))
   \<and> fst (getWatchHistory example_db ''u1'' (Num 2) (Num 1)) =
     Inr (Json 200 []
        (ApiResponse 200 (Videos [mk_summary ''v2'' bob])
           (Some ''Watch history fetched successfully'')))"
proof -
  have h1: "distinct (map video_id (videos example_db))" by (simp add: ex_defs)
  have h2: "distinct (map user_id (users example_db))" by (simp add: ex_defs)
  have h3: "findById (users example_db) ''u1'' = Some alice" by (simp add: ex_defs findById_def)
  have v: "spec_watch_history example_db (watchHistory alice) 1 10
     = [mk_summary ''v3'' alice, mk_summary ''v2'' bob, mk_summary ''v1'' bob]"
    "spec_watch_history example_db (watchHistory alice) 2 1 = [mk_summary ''v2'' bob]"
    by (simp_all add: spec_watch_history_def example_feed)
  have w: "watchHistory alice = [''v1'', ''v2'', ''v4'', ''v3'']" by (simp add: alice_def)
  from watch_history_reversed_published_paginated[OF h1 h2 h3, of "Num 1" 1 "Num 10" 10]
       watch_history_reversed_published_paginated[OF h1 h2 h3, of "Num 2" 2 "Num 1" 1]
       v h1 h2 h3 w
  show ?thesis by simp
qed

text \<open>Absent or unparsable parameters count as page 1 and limit 10.\<close>

lemma getWatchHistory_defaults:
  "getWatchHistory d uid NaN NaN = getWatchHistory d uid (Num 1) (Num 10)"
  by (simp add: getWatchHistory_def or_default_def split: option.splits)

text \<open>
  Claim C2 fails on the code. The guard \<open>page < 1 || limit < 1\<close> and its message refuse
  a page or limit that is not positive, but \<open>parseInt(...) || 1\<close> has replaced a parsed
  \<open>0\<close> by the default before the guard is reached: the request with page 0 is served as
  page 1, with status 200, and the aggregation is sent to the store.
\<close>

theorem page_zero_not_rejected:
  "getWatchHistory example_db ''u1'' (Num 0) (Num 10) =
     (Inr (Json 200 []
        (ApiResponse 200 (Videos [mk_summary ''v3'' alice, mk_summary ''v2'' bob, mk_summary ''v1'' bob])
           (Some ''Watch history fetched successfully''))),
      [FindById ''u1'', Aggregate ''u1''])"
proof -
  have h1: "distinct (map video_id (videos example_db))" by (simp add: ex_defs)
  have h2: "distinct (map user_id (users example_db))" by (simp add: ex_defs)
  have h3: "findById (users example_db) ''u1'' = Some alice" by (simp add: ex_defs findById_def)
  have p: "or_default (Num 0) 1 = Num 1" "or_default (Num 10) 10 = Num 10"
    by (simp_all add: or_default_def)
  from getWatchHistory_page[OF h1 h2 h3 p] show ?thesis
    by (simp add: spec_watch_history_def example_feed)
qed

text \<open>
  A limit of 0 is served with the default 10 in the same way; a negative page or limit,
  which stays as it is under \<open>||\<close>, is refused with status 400 after the lookup of the
  viewer and before the aggregation.
\<close>

lemma limit_zero_not_rejected:
  "getWatchHistory d uid parsedPage (Num 0) = getWatchHistory d uid parsedPage (Num 10)"
  by (simp add: getWatchHistory_def or_default_def split: option.splits)

lemma negative_pagination_rejected_before_aggregation:
  assumes "findById (users d) uid = Some u"
    and "js_lt parsedPage 0 \<or> js_lt parsedLimit 0"
  shows "getWatchHistory d uid parsedPage parsedLimit =
     (Inr (Json 400 []
        (ApiResponse 400 (Text ''Page and limit must be positive integers'') None)),
      [FindById uid])"
proof -
  have "js_lt (or_default x k) 1" if "js_lt x 0" for x k
    using that by (cases x) (auto simp: or_default_def)
  with assms(2) have "js_lt (or_default parsedPage 1) 1 \<or> js_lt (or_default parsedLimit 10) 1"
    by blast
  then show ?thesis using assms(1) by (simp add: getWatchHistory_def Let_def)
qed

text \<open>A viewer missing from the store is reported first, whatever the parameters.\<close>

lemma getWatchHistory_missing_viewer:
  "findById (users d) uid = None \<Longrightarrow>
   getWatchHistory d uid parsedPage parsedLimit
     = (Inl (ApiError 404 ''User does not exists''), [FindById uid])"
  by (simp add: getWatchHistory_def)

text \<open>
  Beyond the integers that a \<open>$skip\<close> or \<open>$limit\<close> stage takes, the store refuses the
  pipeline: an infinite limit, as \<open>parseInt\<close> gives for a very long run of digits, is
  no page of the history.
\<close>

lemma infinite_limit_refused:
  "findById (users d) uid = Some u \<Longrightarrow> \<not> js_lt (or_default parsedPage 1) 1 \<Longrightarrow>
   fst (getWatchHistory d uid parsedPage PosInf)
     = Inl (MongoServerError ''invalid argument to $skip or $limit'')"
  by (simp add: getWatchHistory_def Let_def or_default_def watch_history_aggregate_def
      split: option.splits)

section \<open>Pushing to the history\<close>

lemma update_found:
  "findById us i = Some u \<Longrightarrow>
   findByIdAndUpdate us i f = (Some (f u), snd (findByIdAndUpdate us i f))"
  by (induction us) (auto simp: findById_def split: prod.splits)

lemma update_keeps_ids:
  "(\<And>u. user_id (f u) = user_id u) \<Longrightarrow>
   map user_id (snd (findByIdAndUpdate us i f)) = map user_id us"
  by (induction us) (auto split: prod.splits)

lemma update_then_find:
  "findById us i = Some u \<Longrightarrow> user_id (f u) = i \<Longrightarrow>
   findById (snd (findByIdAndUpdate us i f)) i = Some (f u)"
  by (induction us) (auto simp: findById_def split: prod.splits)

lemma update_keeps_owner:
  "(\<And>u. user_id (f u) = user_id u) \<Longrightarrow> (\<And>u. project_owner (f u) = project_owner u) \<Longrightarrow>
   map_option project_owner (findById (snd (findByIdAndUpdate us i f)) j)
   = map_option project_owner (findById us j)"
  by (induction us) (auto simp: findById_def split: prod.splits)

lemma found_published_id: "findOnePublished vs x = Some v \<Longrightarrow> video_id v = x \<and> isPublished v"
  by (auto simp: findOnePublished_def dest: find_Some_iff[THEN iffD1])

lemma push_ok:
  assumes "isValidObjectId x" "findOnePublished (videos d) x = Some v" "findById (users d) uid = Some u"
  shows "snd (pushVideoToWatchHistory isValidObjectId d uid x) = pushed d uid x"
proof -
  obtain r us' where r: "findByIdAndUpdate (users d) uid
      (\<lambda>u. u\<lparr>watchHistory := watchHistory u @ [x]\<rparr>) = (r, us')"
    by (cases "findByIdAndUpdate (users d) uid (\<lambda>u. u\<lparr>watchHistory := watchHistory u @ [x]\<rparr>)")
  with update_found[OF assms(3), of "\<lambda>u. u\<lparr>watchHistory := watchHistory u @ [x]\<rparr>"]
  have "r = Some (u\<lparr>watchHistory := watchHistory u @ [x]\<rparr>)" by simp
  with r assms found_published_id[OF assms(2)] show ?thesis
    by (simp add: pushVideoToWatchHistory_def pushed_def)
qed

lemma pushed_videos: "videos (pushed d uid x) = videos d"
  by (simp add: pushed_def)

lemma pushed_ids: "map user_id (users (pushed d uid x)) = map user_id (users d)"
  by (simp add: pushed_def update_keeps_ids)

lemma pushed_find:
  "findById (users d) uid = Some u \<Longrightarrow>
   findById (users (pushed d uid x)) uid = Some (u\<lparr>watchHistory := watchHistory u @ [x]\<rparr>)"
  using update_then_find[of "users d" uid u "\<lambda>u. u\<lparr>watchHistory := watchHistory u @ [x]\<rparr>"]
  by (auto simp: pushed_def findById_def dest: find_Some_iff[THEN iffD1])

lemma pushed_summary: "spec_summary (pushed d uid x) v = spec_summary d v"
  by (simp add: spec_summary_def pushed_def update_keeps_owner project_owner_def)

lemma pushed_feed: "spec_feed (pushed d uid x) h = spec_feed d h"
proof -
  have "spec_summary (pushed d uid x) = spec_summary d" by (rule ext) (rule pushed_summary)
  moreover have "spec_published_video (pushed d uid x) = spec_published_video d"
    by (rule ext) (simp add: spec_published_video_def pushed_videos)
  ultimately show ?thesis by (simp add: spec_feed_def)
qed

lemma feed_snoc:
  "spec_published_video d x = Some v \<Longrightarrow> spec_feed d (h @ [x]) = spec_summary d v # spec_feed d h"
  by (simp add: spec_feed_def List.map_filter_simps)

text \<open>
  Claim C3. Pushing the same published video \<open>x\<close> twice for a viewer in the store leaves
  the stored history extended by \<open>[x, x]\<close>, and page 1 of the viewer's watch history
  (for a limit from 1 to below \<open>2 ^ 53\<close>) then starts with the summary of \<open>x\<close> twice,
  followed by the earlier feed, cut at the limit.
\<close>

theorem push_twice_appears_twice:
  assumes "isValidObjectId x" and "findOnePublished (videos d) x = Some v"
    and "findById (users d) uid = Some u"
    and "distinct (map video_id (videos d))" and "distinct (map user_id (users d))"
    and "d1 = snd (pushVideoToWatchHistory isValidObjectId d uid x)"
    and "d2 = snd (pushVideoToWatchHistory isValidObjectId d1 uid x)"
    and "parsedPage = Num 1" and "parsedLimit = Num limit"
    and "1 \<le> limit" and "limit < 2 ^ 53"
  shows "map_option watchHistory (findById (users d2) uid) = Some (watchHistory u @ [x, x])
     \<and> fst (getWatchHistory d2 uid parsedPage parsedLimit) =
         Inr (Json 200 []
           (ApiResponse 200
              (Videos (take (nat limit)
                 (spec_summary d v # spec_summary d v # spec_feed d (watchHistory u))))
              (Some ''Watch history fetched successfully'')))"
proof -
  let ?u1 = "u\<lparr>watchHistory := watchHistory u @ [x]\<rparr>"
  let ?u2 = "?u1\<lparr>watchHistory := watchHistory ?u1 @ [x]\<rparr>"
  have d1: "d1 = pushed d uid x" using assms(1,2,3,6) by (simp add: push_ok)
  have f1: "findById (users d1) uid = Some ?u1" using assms(3) d1 by (simp add: pushed_find)
  have v1: "findOnePublished (videos d1) x = Some v" using assms(2) d1 by (simp add: pushed_videos)
  have d2: "d2 = pushed d1 uid x" using assms(1,7) v1 f1 by (simp add: push_ok)
  have f2: "findById (users d2) uid = Some ?u2" using f1 d2 by (simp add: pushed_find)
  have hist: "watchHistory ?u2 = watchHistory u @ [x, x]" by simp
  have dv: "distinct (map video_id (videos d2))" using assms(4) d1 d2 by (simp add: pushed_videos)
  have du: "distinct (map user_id (users d2))" using assms(5) d1 d2 by (simp add: pushed_ids)
  have pv: "spec_published_video d x = Some v"
    using assms(2) by (simp add: spec_published_video_def findOnePublished_def)
  have "spec_feed d2 (watchHistory ?u2) = spec_feed d (watchHistory u @ [x] @ [x])"
    using d1 d2 by (simp add: pushed_feed)
  also have "\<dots> = spec_summary d v # spec_summary d v # spec_feed d (watchHistory u)"
    using pv feed_snoc[of d x v "watchHistory u @ [x]"] feed_snoc[of d x v "watchHistory u"]
    by simp
  finally have feed: "spec_feed d2 (watchHistory ?u2)
      = spec_summary d v # spec_summary d v # spec_feed d (watchHistory u)" .
  have "getWatchHistory d2 uid parsedPage parsedLimit =
     (Inr (Json 200 []
        (ApiResponse 200 (Videos (spec_watch_history d2 (watchHistory ?u2) 1 limit))
           (Some ''Watch history fetched successfully''))),
      [FindById uid, Aggregate uid])"
    using getWatchHistory_page[OF dv du f2, of parsedPage 1 parsedLimit limit] assms(8-11)
    by (simp add: or_default_nonzero)
  then show ?thesis using f2 feed by (simp add: spec_watch_history_def)
qed

theorem push_twice_appears_twice_witness:
  "example_isValidObjectId ''v1''
   \<and> findById (users example_db) ''u2'' = Some bob \<and> watchHistory bob = []
   \<and> map_option watchHistory
        (findById (users (snd (pushVideoToWatchHistory example_isValidObjectId
           (snd (pushVideoToWatchHistory example_isValidObjectId example_db ''u2'' ''v1''))
           ''u2'' ''v1''))) ''u2'') = Some [''v1'', ''v1'']
   \<and> fst (getWatchHistory
        (snd (pushVideoToWatchHistory example_isValidObjectId
           (snd (pushVideoToWatchHistory example_isValidObjectId example_db ''u2'' ''v1''))
           ''u2'' ''v1'')) ''u2'' (Num 1) (Num 10)) =
       Inr (Json 200 []
         (ApiResponse 200 (Videos [mk_summary ''v1'' bob, mk_summary ''v1'' bob])
            (Some ''Watch history fetched successfully'')))"
proof -
  have h1: "example_isValidObjectId ''v1''" by (simp add: example_isValidObjectId_def)
  have h2: "findOnePublished (videos example_db) ''v1'' = Some (mk_video ''v1'' ''u2'' True 10)"
    by (simp add: findOnePublished_def ex_defs)
  have h3: "findById (users example_db) ''u2'' = Some bob" by (simp add: ex_defs findById_def)
  have h4: "distinct (map video_id (videos example_db))" by (simp add: ex_defs)
  have h5: "distinct (map user_id (users example_db))" by (simp add: ex_defs)
  have h11: "(10::int) < 2 ^ 53" by simp
  have s: "spec_summary example_db (mk_video ''v1'' ''u2'' True 10) = mk_summary ''v1'' bob"
    by (simp add: spec_summary_def findById_def project_video_def ex_defs)
  have e: "spec_feed example_db (watchHistory bob) = []" "watchHistory bob = []"
    by (simp_all add: spec_feed_def List.map_filter_simps bob_def)
  have h10: "(1::int) \<le> 10" by simp
  have h6: "snd (pushVideoToWatchHistory example_isValidObjectId example_db ''u2'' ''v1'')
     = snd (pushVideoToWatchHistory example_isValidObjectId example_db ''u2'' ''v1'')" by (rule refl)
  have h7: "snd (pushVideoToWatchHistory example_isValidObjectId
           (snd (pushVideoToWatchHistory example_isValidObjectId example_db ''u2'' ''v1''))
           ''u2'' ''v1'')
     = snd (pushVideoToWatchHistory example_isValidObjectId
           (snd (pushVideoToWatchHistory example_isValidObjectId example_db ''u2'' ''v1''))
           ''u2'' ''v1'')" by (rule refl)
  from push_twice_appears_twice[OF h1 h2 h3 h4 h5 h6 h7 refl refl h10 h11] h1 h3 s e
  show ?thesis by simp
qed

text \<open>
  Claim C4. A video identifier that \<open>isValidObjectId\<close> refuses fails with
  \<open>ApiError(400, "video id is not a valid object id")\<close>; an accepted identifier that
  names no video, or only an unpublished one, fails with
  \<open>ApiError(400, "video not found")\<close>. In both cases the store, and so every watch
  history, is returned unchanged.
\<close>

theorem push_failures_leave_history_unchanged:
  "(\<not> isValidObjectId x \<longrightarrow>
      pushVideoToWatchHistory isValidObjectId d uid x =
        (Inl (ApiError 400 ''video id is not a valid object id''), d))
   \<and> (isValidObjectId x \<and> (\<forall>v\<in>set (videos d). video_id v = x \<longrightarrow> \<not> isPublished v) \<longrightarrow>
      pushVideoToWatchHistory isValidObjectId d uid x =
        (Inl (ApiError 400 ''video not found''), d))"
proof -
  have "findOnePublished (videos d) x = None"
    if "\<forall>v\<in>set (videos d). video_id v = x \<longrightarrow> \<not> isPublished v"
    using that by (auto simp: findOnePublished_def find_None_iff)
  then show ?thesis by (simp add: pushVideoToWatchHistory_def)
qed

theorem push_failures_leave_history_unchanged_witness:
  "\<not> example_isValidObjectId ''not-an-id''
   \<and> pushVideoToWatchHistory example_isValidObjectId example_db ''u1'' ''not-an-id'' =
        (Inl (ApiError 400 ''video id is not a valid object id''), example_db)
   \<and> example_isValidObjectId ''v4''
   \<and> map (\<lambda>v. (video_id v, isPublished v)) (videos example_db) =
        [(''v1'', True), (''v2'', True), (''v3'', True), (''v4'', False)]
   \<and> pushVideoToWatchHistory example_isValidObjectId example_db ''u1'' ''v4'' =
        (Inl (ApiError 400 ''video not found''), example_db)
   \<and> example_isValidObjectId ''v9''
   \<and> pushVideoToWatchHistory example_isValidObjectId example_db ''u1'' ''v9'' =
        (Inl (ApiError 400 ''video not found''), example_db)"
proof -
  have a: "\<not> example_isValidObjectId ''not-an-id''" by (simp add: example_isValidObjectId_def)
  have b: "example_isValidObjectId ''v4''" "example_isValidObjectId ''v9''"
    by (simp_all add: example_isValidObjectId_def)
  have c: "\<forall>v\<in>set (videos example_db). video_id v = ''v4'' \<longrightarrow> \<not> isPublished v"
    "\<forall>v\<in>set (videos example_db). video_id v = ''v9'' \<longrightarrow> \<not> isPublished v"
    by (simp_all add: ex_defs)
  have d: "map (\<lambda>v. (video_id v, isPublished v)) (videos example_db) =
        [(''v1'', True), (''v2'', True), (''v3'', True), (''v4'', False)]"
    by (simp add: ex_defs)
  from push_failures_leave_history_unchanged[of example_isValidObjectId "''not-an-id''" example_db "''u1''"]
       push_failures_leave_history_unchanged[of example_isValidObjectId "''v4''" example_db "''u1''"]
       push_failures_leave_history_unchanged[of example_isValidObjectId "''v9''" example_db "''u1''"]
       a b c d
  show ?thesis by simp
qed

section \<open>OTP verification is single-use and bound to its route\<close>







text \<open>In general a successful verification removes exactly one record of the email.\<close>

lemma delete_one_count:
  "find (\<lambda>r. otp_email r = e) os = Some r \<Longrightarrow>
   Suc (length (filter (\<lambda>r. otp_email r = e) (deleteOneOtp os e)))
     = length (filter (\<lambda>r. otp_email r = e) os)"
  by (induction os) (auto split: if_splits)

text \<open>
  Claim C6. When the record found for the email is not expired and the route's context
  (the segment of the URL after the first slash) differs from the record's context,
  verification fails with \<open>ApiError(404, "Invalid otp")\<close> and the store is unchanged,
  whatever \<open>isOtpCorrect\<close> says about the submitted code.
\<close>

theorem otp_context_mismatch_rejected:
  assumes "e \<noteq> []" and "c \<noteq> []"
    and "findOneOtp (otps d) e = Some r"
    and "\<not> expires r < now"
    and "at_index (split CHR ''/'' url) 1 \<noteq> Some (otp_context r)"
  shows "verifyOtp isOtpCorrect now d url (Some e) (Some c) = (Inl (ApiError 404 ''Invalid otp''), d)"
  using assms by (simp add: verifyOtp_def falsy_def)

text \<open>In the example the submitted code is the record's code, and the route is another.\<close>

theorem otp_context_mismatch_rejected_witness:
  "findOneOtp (otps example_db) ''carol@example.com''
     = Some \<lparr>otp_email = ''carol@example.com'', otp_code = ''123456'',
             otp_context = ''register'', expires = 1000\<rparr>
   \<and> at_index (split CHR ''/'' ''/forgot-password'') 1 = Some ''forgot-password''
   \<and> example_isOtpCorrect \<lparr>otp_email = ''carol@example.com'', otp_code = ''123456'',
             otp_context = ''register'', expires = 1000\<rparr> ''123456''
   \<and> verifyOtp example_isOtpCorrect 500 example_db ''/forgot-password''
        (Some ''carol@example.com'') (Some ''123456'')
     = (Inl (ApiError 404 ''Invalid otp''), example_db)"
proof -
  let ?r = "\<lparr>otp_email = ''carol@example.com'', otp_code = ''123456'',
             otp_context = ''register'', expires = 1000\<rparr>"
  have h1: "''carol@example.com'' \<noteq> []" and h2: "''123456'' \<noteq> []" by simp_all
  have h3: "findOneOtp (otps example_db) ''carol@example.com'' = Some ?r"
    by (simp add: findOneOtp_def ex_defs)
  have h4: "\<not> expires ?r < 500" by simp
  have sp: "at_index (split CHR ''/'' ''/forgot-password'') 1 = Some ''forgot-password''"
    by (simp add: at_index_def)
  have h5: "at_index (split CHR ''/'' ''/forgot-password'') 1 \<noteq> Some (otp_context ?r)"
    by (simp add: at_index_def)
  have ok: "example_isOtpCorrect ?r ''123456''" by (simp add: example_isOtpCorrect_def)
  from otp_context_mismatch_rejected[OF h1 h2 h3 h4 h5, of example_isOtpCorrect] h3 sp ok
  show ?thesis by simp
qed

section \<open>Refresh tokens other than the stored one\<close>

text \<open>
  Claim C7. A presented refresh token that \<open>jwt.verify\<close> accepts and that names a user
  of the store, but differs from the token stored on that user, fails with
  \<open>ApiError(401, "Refresh token is expired or used")\<close>; the store, and with it the
  stored token, is unchanged and no token is generated.
\<close>

theorem refresh_rejects_token_not_stored:
  assumes "or_else cookie bodyToken = Some t" and "t \<noteq> []"
    and "jwt_verify t = Inr (Some uid)"
    and "findById (users d) uid = Some u"
    and "refreshToken u \<noteq> Some t"
  shows "refreshAccessToken jwt_verify generateAccessToken generateRefreshToken d cookie bodyToken
     = (Inl (ApiError 401 ''Refresh token is expired or used''), d)"
  using assms by (simp add: refreshAccessToken_def Let_def falsy_def rethrow401_def)

theorem refresh_rejects_token_not_stored_witness:
  "or_else (Some ''old-alice'') None = Some ''old-alice''
   \<and> example_jwt_verify ''old-alice'' = Inr (Some ''u1'')
   \<and> findById (users example_db) ''u1'' = Some alice
   \<and> refreshToken alice = Some ''tok-alice''
   \<and> refreshAccessToken example_jwt_verify example_generateAccessToken
        example_generateRefreshToken example_db (Some ''old-alice'') None
     = (Inl (ApiError 401 ''Refresh token is expired or used''), example_db)"
proof -
  have h1: "or_else (Some ''old-alice'') None = Some ''old-alice''"
    by (simp add: or_else_def falsy_def)
  have h2: "''old-alice'' \<noteq> []" by simp
  have h3: "example_jwt_verify ''old-alice'' = Inr (Some ''u1'')"
    by (simp add: example_jwt_verify_def)
  have h4: "findById (users example_db) ''u1'' = Some alice" by (simp add: ex_defs findById_def)
  have h5: "refreshToken alice \<noteq> Some ''old-alice''" by (simp add: alice_def)
  have st: "refreshToken alice = Some ''tok-alice''" by (simp add: alice_def)
  from refresh_rejects_token_not_stored[where jwt_verify = example_jwt_verify
      and generateAccessToken = example_generateAccessToken
      and generateRefreshToken = example_generateRefreshToken, OF h1 h2 h3 h4 h5] h1 h3 h4 st
  show ?thesis by simp
qed

text \<open>
  More generally, a response is sent only for a token equal to the stored one, and every
  failure of the exchange carries status 401.
\<close>

lemma refresh_success_needs_stored_token:
  assumes "fst (refreshAccessToken jwt_verify generateAccessToken generateRefreshToken d cookie bodyToken) = Inr r"
  shows "\<exists>t uid u. or_else cookie bodyToken = Some t \<and> jwt_verify t = Inr (Some uid)
           \<and> findById (users d) uid = Some u \<and> refreshToken u = Some t"
proof -
  from assms have nf: "\<not> falsy (or_else cookie bodyToken)"
    by (auto simp: refreshAccessToken_def Let_def)
  then obtain t where t: "or_else cookie bodyToken = Some t"
    by (auto simp: falsy_def split: option.splits)
  from assms nf t obtain uid where v: "jwt_verify t = Inr (Some uid)"
    by (auto simp: refreshAccessToken_def Let_def split: sum.splits option.splits)
  from assms nf t v obtain u where u: "findById (users d) uid = Some u"
    by (auto simp: refreshAccessToken_def Let_def split: option.splits)
  from assms nf t v u have "refreshToken u = Some t"
    by (auto simp: refreshAccessToken_def Let_def split: if_splits)
  with t v u show ?thesis by blast
qed

lemma refresh_failure_is_401:
  assumes "fst (refreshAccessToken jwt_verify generateAccessToken generateRefreshToken d cookie bodyToken) = Inl e"
  shows "\<exists>m. e = ApiError 401 m"
  using assms
  by (auto simp: refreshAccessToken_def Let_def rethrow401_def
      split: if_splits sum.splits option.splits prod.splits)

text \<open>The stored token itself is exchanged for a new pair.\<close>

lemma refresh_current_token_accepted_example:
  "fst (refreshAccessToken example_jwt_verify example_generateAccessToken
        example_generateRefreshToken example_db (Some ''tok-alice'') None)
     = Inr (Json 200 [(''accessToken'', ''access-u1''), (''refreshToken'', ''refresh-u1'')]
          (ApiResponse 200 (Tokens ''access-u1'' ''refresh-u1'') (Some ''Access token refreshed'')))"
  by (simp add: refreshAccessToken_def Let_def or_else_def falsy_def example_jwt_verify_def
      findById_def generateAccessAndRefreshTokens_def example_generateAccessToken_def
      example_generateRefreshToken_def ex_defs)

section \<open>The channel-profile aggregator\<close>

lemma case_map_filter:
  "(case map g (filter P xs) of [] \<Rightarrow> a | c # _ \<Rightarrow> b c)
   = (case find P xs of None \<Rightarrow> a | Some x \<Rightarrow> b (g x))"
  by (induction xs) auto

lemma find_same_on_set: "(\<And>x. x \<in> set xs \<Longrightarrow> P x = Q x) \<Longrightarrow> find P xs = find Q xs"
  by (induction xs) auto

lemmas str_defs = example_toLowerCase_def example_lower_char_def example_trim_def
  example_is_space_def char_of_def bit_0

text \<open>
  Claim C8. \<open>trim\<close> and \<open>toLowerCase\<close> are the built-ins of the language, whatever
  they do to a string. With the stored usernames in lower case (as registration writes
  them: each is its own \<open>toLowerCase\<close>) and a username that is given (its \<open>trim\<close> is
  not empty), the handler finds the first user whose username equals the given one up to
  case. It answers with that user's public fields, the number of subscription edges
  whose channel is the user, the number of edges whose subscriber is the user, and the
  flag \<open>isSubscribed\<close>, true exactly when a viewer is given and some edge leads from
  the viewer to the channel. When no user matches it fails with
  \<open>ApiError(404, "channel does not exists")\<close>.
\<close>

theorem channel_profile_counts_and_flag:
  assumes "\<forall>u\<in>set (users d). username u = toLowerCase (username u)"
    and "trim name \<noteq> []"
  shows "getUserChannelProfile trim toLowerCase d viewer (Some name) =
     (case find (\<lambda>u. toLowerCase (username u) = toLowerCase name) (users d) of
        None \<Rightarrow> Inl (ApiError 404 ''channel does not exists'')
      | Some u \<Rightarrow>
          Inr (Json 200 []
            (ApiResponse 200
               (Channel
                  \<lparr>cp_id = user_id u, cp_fullName = fullName u, cp_username = username u,
                   cp_subscribersCount =
                     length (filter (\<lambda>s. channel s = user_id u) (subscriptions d)),
                   cp_channelsSubscibedToCount =
                     length (filter (\<lambda>s. subscriber s = user_id u) (subscriptions d)),
                   cp_isSubscribed =
                     (\<exists>v. viewer = Some v \<and>
                        (\<exists>s\<in>set (subscriptions d). channel s = user_id u \<and> subscriber s = v)),
                   cp_avatar = avatar u, cp_coverImage = coverImage u,
                   cp_email = user_email u, cp_verified = verified u,
                   cp_createdAt = user_createdAt u\<rparr>)
               (Some ''User channel fetched successfully''))))"
proof -
  have same: "find (\<lambda>u. username u = toLowerCase name) (users d)
      = find (\<lambda>u. toLowerCase (username u) = toLowerCase name) (users d)"
    using assms(1) by (intro find_same_on_set) auto
  have flag: "(case viewer of None \<Rightarrow> False
               | Some v \<Rightarrow> v \<in> set (map subscriber (filter (\<lambda>s. channel s = user_id u) (subscriptions d))))
      = (\<exists>v. viewer = Some v \<and>
            (\<exists>s\<in>set (subscriptions d). channel s = user_id u \<and> subscriber s = v))" for u
    by (cases viewer) auto
  show ?thesis
    using assms(2)
    by (simp add: getUserChannelProfile_def channel_aggregate_def case_map_filter same
        channel_fields_def Let_def flag split: option.splits)
qed

theorem channel_profile_counts_and_flag_witness:
  "map username (users example_db) = [''alice'', ''bob'']
   \<and> example_toLowerCase ''BoB'' = ''bob''
   \<and> example_trim ''BoB'' \<noteq> [] \<and> example_trim ''carol'' \<noteq> []
   \<and> getUserChannelProfile example_trim example_toLowerCase example_db (Some ''u1'') (Some ''BoB'') =
       Inr (Json 200 [] (ApiResponse 200 (Channel (bob_profile True))
              (Some ''User channel fetched successfully'')))
   \<and> getUserChannelProfile example_trim example_toLowerCase example_db None (Some ''BoB'') =
       Inr (Json 200 [] (ApiResponse 200 (Channel (bob_profile False))
              (Some ''User channel fetched successfully'')))
   \<and> getUserChannelProfile example_trim example_toLowerCase example_db (Some ''u1'') (Some ''carol'') =
       Inl (ApiError 404 ''channel does not exists'')"
proof -
  have h1: "\<forall>u\<in>set (users example_db). username u = example_toLowerCase (username u)"
    by (simp add: ex_defs str_defs)
  have h2: "example_trim ''BoB'' \<noteq> []" "example_trim ''carol'' \<noteq> []"
    by (simp_all add: str_defs)
  have n: "map username (users example_db) = [''alice'', ''bob'']" by (simp add: ex_defs)
  have l: "example_toLowerCase ''BoB'' = ''bob''" by (simp add: str_defs)
  from channel_profile_counts_and_flag[where trim = example_trim
         and toLowerCase = example_toLowerCase, OF h1 h2(1), of "Some ''u1''"]
       channel_profile_counts_and_flag[where trim = example_trim
         and toLowerCase = example_toLowerCase, OF h1 h2(1), of None]
       channel_profile_counts_and_flag[where trim = example_trim
         and toLowerCase = example_toLowerCase, OF h1 h2(2), of "Some ''u1''"] h2 n l
  show ?thesis
    by (simp add: bob_profile_def ex_defs str_defs)
qed

text \<open>A blank username is refused before the store is asked.\<close>

lemma blank_username_is_missing:
  "trim name = [] \<Longrightarrow>
   getUserChannelProfile trim toLowerCase d viewer (Some name) = Inl (ApiError 400 ''username is missing'')"
  by (simp add: getUserChannelProfile_def)

section \<open>The avatar update and the image checks\<close>

text \<open>
  Claim C9 fails on the code. With an image file, a successful upload and the user in
  the store, \<open>updateUserAvatar\<close> uploads the new image, deletes the old one from the
  media storage and then throws \<open>ReferenceError: ture is not defined\<close>: no document is
  updated and none is returned.
\<close>

theorem avatar_update_throws_instead_of_returning:
  "updateUserAvatar example_upload example_world ''u1''
      (Some \<lparr>path = ''/tmp/a.png'', mimetype = ''image/png''\<rparr>)
   = (Inl (ReferenceError ''ture is not defined''),
      example_world\<lparr>remote_calls :=
        [Upload ''/tmp/a.png'' ''videotube/users'', Delete ''http://cdn/a.png'']\<rparr>)"
  by (simp add: updateUserAvatar_def example_upload_def example_world_def findById_def Let_def
      falsy_def ex_defs)

text \<open>
  On no input does \<open>updateUserAvatar\<close> send a response or change the store, whereas
  \<open>updateUserCoverImage\<close>, with \<open>{ new: true }\<close>, returns the updated document.
\<close>

lemma avatar_update_never_answers:
  "\<exists>e. fst (updateUserAvatar upload w uid file) = Inl e"
  by (auto simp: updateUserAvatar_def Let_def split: option.splits sum.splits)

lemma avatar_update_keeps_store:
  "store (snd (updateUserAvatar upload w uid file)) = store w"
  by (auto simp: updateUserAvatar_def Let_def split: option.splits sum.splits)

lemma cover_update_returns_new_url:
  assumes "path f \<noteq> []" "str_includes (mimetype f) ''image''" "\<not> str_includes (mimetype f) ''gif''"
    "upload (path f) ''videotube/users'' = Some url" "url \<noteq> []"
    "findById (users (store w)) uid = Some u"
  shows "\<exists>m w'. updateUserCoverImage upload w uid (Some f) =
      (Inr (Json 200 [] (ApiResponse 200 (Account (Some (u\<lparr>coverImage := Some url\<rparr>))) m)), w')"
proof -
  obtain r us' where r: "findByIdAndUpdate (users (store w)) uid (\<lambda>u. u\<lparr>coverImage := Some url\<rparr>)
      = (r, us')"
    by (cases "findByIdAndUpdate (users (store w)) uid (\<lambda>u. u\<lparr>coverImage := Some url\<rparr>)")
  with update_found[OF assms(6), of "\<lambda>u. u\<lparr>coverImage := Some url\<rparr>"]
  have "r = Some (u\<lparr>coverImage := Some url\<rparr>)" by simp
  with r assms show ?thesis
    by (auto simp: updateUserCoverImage_def Let_def falsy_def split: option.splits)
qed

text \<open>
  Claim C10. A cover file that is present on disk and whose mimetype contains \<open>gif\<close>,
  or does not contain \<open>image\<close>, makes \<open>updateUserCoverImage\<close> fail with
  \<open>ApiError(400, "Only images are allowed to upload")\<close> after removing the local file.
  \<open>updateUserAvatar\<close> lets every mimetype containing \<open>image\<close> pass this check: it does
  not fail with that error, keeps the local files and sends the upload.
\<close>

theorem cover_rejects_gif_avatar_accepts_it:
  "(path f \<noteq> [] \<and> path f \<in> files w
      \<and> (str_includes (mimetype f) ''gif'' \<or> \<not> str_includes (mimetype f) ''image'') \<longrightarrow>
      updateUserCoverImage upload w uid (Some f) =
        (Inl (ApiError 400 ''Only images are allowed to upload''), w\<lparr>files := files w - {path f}\<rparr>))
   \<and> (path f \<noteq> [] \<and> str_includes (mimetype f) ''image'' \<longrightarrow>
      fst (updateUserAvatar upload w uid (Some f)) \<noteq> Inl (ApiError 400 ''Only images are allowed to upload'')
      \<and> files (snd (updateUserAvatar upload w uid (Some f))) = files w
      \<and> Upload (path f) ''videotube/users''
           \<in> set (remote_calls (snd (updateUserAvatar upload w uid (Some f)))))"
  by (auto simp: updateUserCoverImage_def updateUserAvatar_def unlinkSync_def Let_def
      split: option.splits)

theorem cover_rejects_gif_avatar_accepts_it_witness:
  "''/tmp/b.gif'' \<in> files example_world
   \<and> str_includes ''image/gif'' ''gif'' \<and> str_includes ''image/gif'' ''image''
   \<and> updateUserCoverImage example_upload example_world ''u1''
        (Some \<lparr>path = ''/tmp/b.gif'', mimetype = ''image/gif''\<rparr>) =
        (Inl (ApiError 400 ''Only images are allowed to upload''),
         example_world\<lparr>files := {''/tmp/a.png'', ''/tmp/c.txt''}\<rparr>)
   \<and> fst (updateUserAvatar example_upload example_world ''u1''
        (Some \<lparr>path = ''/tmp/b.gif'', mimetype = ''image/gif''\<rparr>))
        \<noteq> Inl (ApiError 400 ''Only images are allowed to upload'')
   \<and> files (snd (updateUserAvatar example_upload example_world ''u1''
        (Some \<lparr>path = ''/tmp/b.gif'', mimetype = ''image/gif''\<rparr>))) = files example_world
   \<and> Upload ''/tmp/b.gif'' ''videotube/users''
        \<in> set (remote_calls (snd (updateUserAvatar example_upload example_world ''u1''
        (Some \<lparr>path = ''/tmp/b.gif'', mimetype = ''image/gif''\<rparr>))))"
proof -
  have a: "''/tmp/b.gif'' \<in> files example_world" by (simp add: example_world_def)
  have b: "str_includes ''image/gif'' ''gif''" "str_includes ''image/gif'' ''image''" by simp_all
  have c: "files example_world - {''/tmp/b.gif''} = {''/tmp/a.png'', ''/tmp/c.txt''}"
    by (auto simp: example_world_def)
  from cover_rejects_gif_avatar_accepts_it[of "\<lparr>path = ''/tmp/b.gif'', mimetype = ''image/gif''\<rparr>"
      example_world example_upload "''u1''"] a b c
  show ?thesis by simp
qed

end
